theory Spec2Isabelle
  imports Main
begin

section \<open>The points and rewards ledger of the travel assistant\<close>

text \<open>
  The ledger is the module \<^verbatim>\<open>lib/gamification\<close> (\<^verbatim>\<open>awardPoints\<close>, \<^verbatim>\<open>calculateLevel\<close>,
  \<^verbatim>\<open>checkUnlockedRewards\<close>, \<^verbatim>\<open>getUserProgress\<close>, \<^verbatim>\<open>getNextReward\<close>; its text follows the
  SQL migration in \<^verbatim>\<open>src/db/migrations/0000_sour_namor.sql\<close>) together with the
  \<^verbatim>\<open>unlock_reward\<close> handler and \<^verbatim>\<open>generateRewardContent\<close> (the \<^verbatim>\<open>gamificationTools\<close> at the
  end of \<^verbatim>\<open>src/tools/expenses.ts\<close>). Both work on two tables of \<^verbatim>\<open>src/db/schema.ts\<close>,
  \<^verbatim>\<open>users\<close> and \<^verbatim>\<open>achievements\<close>.

  Conventions of the embedding:
  \<^item> a JavaScript \<^verbatim>\<open>number\<close> that holds a point total or a level is an \<^typ>\<open>int\<close>: the
    integer the number holds (every caller passes an integer). A number holds every
    integer up to \<open>2^53\<close> in absolute value and adds them exactly as long as the sum stays
    in that range; beyond it the sum is rounded. The addition of \<^verbatim>\<open>awardPoints\<close> is
    therefore \<open>js_add\<close>, which rounds as the number type does. \<^verbatim>\<open>Math.floor(x / 50)\<close> is
    \<open>x div 50\<close> and the subtractions are exact, which is what the code computes for
    integers up to \<open>2^53\<close> in absolute value;
  \<^item> a nullable column is an \<^typ>\<open>'a option\<close>, \<open>None\<close> being SQL \<^verbatim>\<open>NULL\<close>;
  \<^item> a table is the list of its rows in insertion order;
  \<^item> every function that touches the database takes the database and returns it;
  \<^item> \<open>awardPoints\<close> and \<open>getUserProgress\<close> are the functions on the runs in which the
    storage accepts every statement, the unique constraints of \<^verbatim>\<open>users\<close> apart;
    \<open>awardPoints_rejecting\<close> is \<^verbatim>\<open>awardPoints\<close> with a storage that rejects some of the
    statements (a timeout, an outage);
  \<^item> the columns \<^verbatim>\<open>created_at\<close>, \<^verbatim>\<open>updated_at\<close>, \<^verbatim>\<open>unlocked_at\<close> (timestamps) and the
    random \<^verbatim>\<open>id\<close> of an achievement row (\<^verbatim>\<open>crypto.randomUUID()\<close>) are left out: nothing
    in the ledger reads them;
  \<^item> console output is left out.
\<close>

subsection \<open>Tables\<close>

record user =
  u_id :: string
  email :: string
  u_name :: string
  totalPoints :: "int option"
  level :: "int option"

record achievement =
  a_userId :: "string option"
  achievementType :: string
  pointsRequired :: int

record db =
  users :: "user list"
  achievements :: "achievement list"

datatype db_error = UniqueConstraintFailed | StatementRejected

datatype error = FailedToAwardPoints db_error

subsection \<open>The query builder\<close>

text \<open>
  The queries are built with the library \<^verbatim>\<open>drizzle-orm\<close>, which is a dependency and not
  part of the repository. \<^verbatim>\<open>db.select().from(t)\<close> starts a query with no condition. The
  builder keeps one condition in its configuration, and \<^verbatim>\<open>.where(c)\<close> assigns it
  (\<^verbatim>\<open>this.config.where = where\<close>): a second \<^verbatim>\<open>.where\<close> replaces the first, it does not
  conjoin with it. A conjunction is written \<^verbatim>\<open>.where(and(c1, c2))\<close>, as the tool handlers
  of the repository do (\<^verbatim>\<open>findOrCreateDestination\<close>, the itinerary lookups). \<^verbatim>\<open>.get()\<close>
  returns the first row that qualifies, or nothing; awaiting the query itself returns all
  of them.
\<close>

record 'r select_query =
  q_from :: "'r list"
  q_where :: "('r \<Rightarrow> bool) option"

definition select_from :: "'r list \<Rightarrow> 'r select_query" where
  "select_from rows = \<lparr>q_from = rows, q_where = None\<rparr>"

definition where_q :: "('r \<Rightarrow> bool) \<Rightarrow> 'r select_query \<Rightarrow> 'r select_query" where
  "where_q c q = q\<lparr>q_where := Some c\<rparr>"

definition all_q :: "'r select_query \<Rightarrow> 'r list" where
  "all_q q = (case q_where q of None \<Rightarrow> q_from q | Some c \<Rightarrow> filter c (q_from q))"

definition get_q :: "'r select_query \<Rightarrow> 'r option" where
  "get_q q = (case all_q q of [] \<Rightarrow> None | r # _ \<Rightarrow> Some r)"

text \<open>
  \<^verbatim>\<open>INSERT INTO users\<close>: \<^verbatim>\<open>id\<close> is the primary key and \<^verbatim>\<open>email\<close> has the unique index
  \<^verbatim>\<open>users_email_unique\<close>; the statement fails when either value is already in the table.
\<close>

definition insert_user :: "user \<Rightarrow> db \<Rightarrow> db_error + db" where
  "insert_user r d =
     (if u_id r \<in> set (map u_id (users d)) \<or> email r \<in> set (map email (users d))
      then Inl UniqueConstraintFailed
      else Inr (d\<lparr>users := users d @ [r]\<rparr>))"

text \<open>
  \<^verbatim>\<open>INSERT INTO achievements\<close>: the table has no unique index besides the primary key
  \<^verbatim>\<open>id\<close>, which is a fresh random UUID, so the statement always adds a row.
\<close>

definition insert_achievement :: "achievement \<Rightarrow> db \<Rightarrow> db" where
  "insert_achievement a d = d\<lparr>achievements := achievements d @ [a]\<rparr>"

text \<open>\<^verbatim>\<open>UPDATE users SET total_points = ?, level = ?, updated_at = ? WHERE id = ?\<close>\<close>

definition update_user :: "string \<Rightarrow> int \<Rightarrow> int \<Rightarrow> db \<Rightarrow> db" where
  "update_user userId newTotal newLevel d =
     d\<lparr>users := map (\<lambda>u. if u_id u = userId
                            then u\<lparr>totalPoints := Some newTotal, level := Some newLevel\<rparr>
                            else u) (users d)\<rparr>"

text \<open>JavaScript's \<^verbatim>\<open>v || d\<close> on a nullable number: \<^verbatim>\<open>null\<close> and \<^verbatim>\<open>0\<close> are falsy.\<close>

definition or_default :: "int option \<Rightarrow> int \<Rightarrow> int" where
  "or_default v d = (case v of None \<Rightarrow> d | Some n \<Rightarrow> if n = 0 then d else n)"

text \<open>
  JavaScript's \<^verbatim>\<open>a + b\<close> on two numbers that hold integers. The sum is exact when it is
  at most \<open>2^53 = 9007199254740992\<close> in absolute value. A larger sum is rounded to 53
  significant bits, to the nearest such value and to the one with the even last bit in
  a tie (the default rounding of IEEE 754 doubles); sums beyond the largest finite number
  are not modelled.
\<close>

definition js_safe :: "int \<Rightarrow> bool" where
  "js_safe n = (\<bar>n\<bar> \<le> 9007199254740992)"

fun bit_length :: "nat \<Rightarrow> nat" where
  "bit_length n = (if n = 0 then 0 else Suc (bit_length (n div 2)))"

declare bit_length.simps [simp del]

definition round_double :: "int \<Rightarrow> int" where
  "round_double n =
     (let m = nat \<bar>n\<bar>;
          u = 2 ^ (bit_length m - 53);
          q = m div u;
          r = m mod u;
          q' = (if 2 * r > u \<or> (2 * r = u \<and> odd q) then q + 1 else q)
      in sgn n * int (q' * u))"

definition js_add :: "int \<Rightarrow> int \<Rightarrow> int" where
  "js_add a b = (if js_safe (a + b) then a + b else round_double (a + b))"

subsection \<open>Levels and the reward catalog\<close>

definition calculateLevel :: "int \<Rightarrow> int" where
  "calculateLevel pts = pts div 50 + 1"

record reward =
  r_points :: int
  r_type :: string
  r_name :: string

definition rewardThresholds :: "reward list" where
  "rewardThresholds =
     [\<lparr>r_points = 50, r_type = ''restaurant_recommendations'', r_name = ''Restaurant Finder''\<rparr>,
      \<lparr>r_points = 100, r_type = ''hidden_gems'', r_name = ''Hidden Gems Discovery''\<rparr>,
      \<lparr>r_points = 200, r_type = ''food_specialties'', r_name = ''Local Food Specialties''\<rparr>,
      \<lparr>r_points = 300, r_type = ''photography_spots'', r_name = ''Photography Spots''\<rparr>]"

subsection \<open>checkUnlockedRewards\<close>

text \<open>
  The existence check of the source is
  \<^verbatim>\<open>db.select().from(achievements).where(eq(achievements.userId, userId))
     .where(eq(achievements.achievementType, reward.type)).get()\<close>:
  two chained \<^verbatim>\<open>.where\<close> calls.
\<close>

definition existingAchievement :: "db \<Rightarrow> string \<Rightarrow> string \<Rightarrow> achievement option" where
  "existingAchievement d userId rtype =
     get_q (where_q (\<lambda>a. achievementType a = rtype)
             (where_q (\<lambda>a. a_userId a = Some userId)
               (select_from (achievements d))))"

fun checkRewards_loop ::
  "reward list \<Rightarrow> string \<Rightarrow> int \<Rightarrow> int \<Rightarrow> string list \<Rightarrow> db \<Rightarrow> string list \<times> db" where
  "checkRewards_loop [] userId oldTotal newTotal newlyUnlocked d = (newlyUnlocked, d)"
| "checkRewards_loop (r # rs) userId oldTotal newTotal newlyUnlocked d =
     (if oldTotal < r_points r \<and> newTotal \<ge> r_points r then
        (case existingAchievement d userId (r_type r) of
           None \<Rightarrow>
             checkRewards_loop rs userId oldTotal newTotal (newlyUnlocked @ [r_name r])
               (insert_achievement
                  \<lparr>a_userId = Some userId, achievementType = r_type r,
                   pointsRequired = r_points r\<rparr> d)
         | Some _ \<Rightarrow> checkRewards_loop rs userId oldTotal newTotal newlyUnlocked d)
      else checkRewards_loop rs userId oldTotal newTotal newlyUnlocked d)"

definition checkUnlockedRewards :: "db \<Rightarrow> string \<Rightarrow> int \<Rightarrow> int \<Rightarrow> string list \<times> db" where
  "checkUnlockedRewards d userId oldTotal newTotal =
     checkRewards_loop rewardThresholds userId oldTotal newTotal [] d"

subsection \<open>awardPoints\<close>

record award_result =
  newTotal :: int
  levelsGained :: int
  unlockedRewards :: "string list"

definition get_user :: "db \<Rightarrow> string \<Rightarrow> user option" where
  "get_user d userId = get_q (where_q (\<lambda>u. u_id u = userId) (select_from (users d)))"

definition awardPoints :: "db \<Rightarrow> string \<Rightarrow> int \<Rightarrow> string \<Rightarrow> (error + award_result) \<times> db" where
  "awardPoints d userId points action =
     (case get_user d userId of
        None \<Rightarrow>
          (case insert_user
                  \<lparr>u_id = userId, email = ''user'' @ userId @ ''@example.com'',
                   u_name = ''User '' @ userId, totalPoints = Some points, level = Some 1\<rparr> d of
             Inl e \<Rightarrow> (Inl (FailedToAwardPoints e), d)
           | Inr d' \<Rightarrow>
               (Inr \<lparr>newTotal = points, levelsGained = 0, unlockedRewards = []\<rparr>, d'))
      | Some currentUser \<Rightarrow>
          (let oldTotal = or_default (totalPoints currentUser) 0;
               newTotal = js_add oldTotal points;
               oldLevel = or_default (level currentUser) 1;
               newLevel = calculateLevel newTotal;
               levelsGained = newLevel - oldLevel;
               d1 = update_user userId newTotal newLevel d;
               (unlocked, d2) = checkUnlockedRewards d1 userId oldTotal newTotal
           in (Inr \<lparr>newTotal = newTotal, levelsGained = levelsGained,
                     unlockedRewards = unlocked\<rparr>, d2)))"

subsection \<open>awardPoints over a storage that rejects statements\<close>

text \<open>
  Every statement of \<^verbatim>\<open>awardPoints\<close> is awaited inside one \<^verbatim>\<open>try\<close> block, and there is no
  transaction: a statement the storage rejects throws, the \<^verbatim>\<open>catch\<close> block rethrows, and
  what the earlier statements wrote stays written. The statements of one call are named
  below (the two on \<^verbatim>\<open>achievements\<close> by the reward type they are about), and \<open>rejects\<close>
  says which of them the storage rejects in this call.
\<close>

datatype statement =
    Select_user
  | Insert_user
  | Update_user
  | Select_achievement string
  | Insert_achievement string

fun checkRewards_loop_rejecting ::
  "(statement \<Rightarrow> bool) \<Rightarrow> reward list \<Rightarrow> string \<Rightarrow> int \<Rightarrow> int \<Rightarrow> string list \<Rightarrow> db
     \<Rightarrow> (db_error + string list) \<times> db" where
  "checkRewards_loop_rejecting rejects [] userId oldT newT newlyUnlocked d =
     (Inr newlyUnlocked, d)"
| "checkRewards_loop_rejecting rejects (r # rs) userId oldT newT newlyUnlocked d =
     (if oldT < r_points r \<and> newT \<ge> r_points r then
        (if rejects (Select_achievement (r_type r)) then (Inl StatementRejected, d)
         else
           (case existingAchievement d userId (r_type r) of
              None \<Rightarrow>
                (if rejects (Insert_achievement (r_type r)) then (Inl StatementRejected, d)
                 else
                   checkRewards_loop_rejecting rejects rs userId oldT newT
                     (newlyUnlocked @ [r_name r])
                     (insert_achievement
                        \<lparr>a_userId = Some userId, achievementType = r_type r,
                         pointsRequired = r_points r\<rparr> d))
            | Some _ \<Rightarrow>
                checkRewards_loop_rejecting rejects rs userId oldT newT
                  newlyUnlocked d))
      else checkRewards_loop_rejecting rejects rs userId oldT newT newlyUnlocked d)"

definition awardPoints_rejecting ::
  "(statement \<Rightarrow> bool) \<Rightarrow> db \<Rightarrow> string \<Rightarrow> int \<Rightarrow> string \<Rightarrow> (error + award_result) \<times> db" where
  "awardPoints_rejecting rejects d userId points action =
     (if rejects Select_user then (Inl (FailedToAwardPoints StatementRejected), d)
      else
        (case get_user d userId of
           None \<Rightarrow>
             (if rejects Insert_user then (Inl (FailedToAwardPoints StatementRejected), d)
              else
                (case insert_user
                        \<lparr>u_id = userId, email = ''user'' @ userId @ ''@example.com'',
                         u_name = ''User '' @ userId, totalPoints = Some points,
                         level = Some 1\<rparr> d of
                   Inl e \<Rightarrow> (Inl (FailedToAwardPoints e), d)
                 | Inr d' \<Rightarrow>
                     (Inr \<lparr>newTotal = points, levelsGained = 0, unlockedRewards = []\<rparr>, d')))
         | Some currentUser \<Rightarrow>
             (let oldTotal = or_default (totalPoints currentUser) 0;
                  newTotal = js_add oldTotal points;
                  oldLevel = or_default (level currentUser) 1;
                  newLevel = calculateLevel newTotal;
                  levelsGained = newLevel - oldLevel
              in if rejects Update_user then (Inl (FailedToAwardPoints StatementRejected), d)
                 else
                   (case checkRewards_loop_rejecting rejects rewardThresholds userId
                           oldTotal newTotal [] (update_user userId newTotal newLevel d) of
                      (Inl e, d2) \<Rightarrow> (Inl (FailedToAwardPoints e), d2)
                    | (Inr unlocked, d2) \<Rightarrow>
                        (Inr \<lparr>newTotal = newTotal, levelsGained = levelsGained,
                              unlockedRewards = unlocked\<rparr>, d2)))))"

subsection \<open>getUserProgress and getNextReward\<close>

record next_reward =
  nr_name :: string
  pointsNeeded :: int

record progress =
  p_points :: int
  p_level :: int
  p_achievements :: "string list"
  nextReward :: next_reward

fun nextReward_loop :: "(int \<times> string) list \<Rightarrow> int \<Rightarrow> next_reward" where
  "nextReward_loop [] currentPoints = \<lparr>nr_name = ''All rewards unlocked!'', pointsNeeded = 0\<rparr>"
| "nextReward_loop ((pts, nm) # rs) currentPoints =
     (if currentPoints < pts then \<lparr>nr_name = nm, pointsNeeded = pts - currentPoints\<rparr>
      else nextReward_loop rs currentPoints)"

definition getNextReward :: "int \<Rightarrow> next_reward" where
  "getNextReward currentPoints =
     nextReward_loop
       [(50, ''Restaurant Finder''), (100, ''Hidden Gems Discovery''),
        (200, ''Local Food Specialties''), (300, ''Photography Spots'')] currentPoints"

definition getUserProgress :: "db \<Rightarrow> string \<Rightarrow> progress \<times> db" where
  "getUserProgress d userId =
     (case get_user d userId of
        None \<Rightarrow>
          (\<lparr>p_points = 0, p_level = 1, p_achievements = [],
            nextReward = \<lparr>nr_name = ''Restaurant Finder'', pointsNeeded = 50\<rparr>\<rparr>, d)
      | Some u \<Rightarrow>
          (let userAchievements =
                 all_q (where_q (\<lambda>a. a_userId a = Some userId) (select_from (achievements d)));
               pts = or_default (totalPoints u) 0
           in (\<lparr>p_points = pts, p_level = or_default (level u) 1,
                 p_achievements = map achievementType userAchievements,
                 nextReward = getNextReward pts\<rparr>, d)))"

subsection \<open>The unlock\_reward handler\<close>

text \<open>
  \<^verbatim>\<open>generateRewardContent\<close>: a fixed table keyed by the reward type, with a default for a
  key that is not in it. The pictograph that opens each title in the source is not ASCII
  and is left out of the title here. The table has its four own keys only: a reward type
  that names a property every JavaScript object inherits (\<^verbatim>\<open>constructor\<close>, \<^verbatim>\<open>toString\<close>) is
  outside the model, here and in \<open>rewardRequirements\<close>.
\<close>

record reward_content =
  title :: string
  description :: string
  features :: "string list"
  bonus :: string

definition rewards_table :: "(string \<times> reward_content) list" where
  "rewards_table =
     [(''restaurant_recommendations'',
       \<lparr>title = ''Premium Restaurant Finder'',
        description =
          ''Access to curated restaurant recommendations based on your travel destinations'',
        features = [''Personalized dining suggestions'', ''Local hidden gem restaurants'',
          ''Chef recommendations'', ''Dietary restriction filters'', ''Price range matching''],
        bonus = ''Unlock exclusive dining experiences and local food tours''\<rparr>),
      (''hidden_gems'',
       \<lparr>title = ''Hidden Gems Discovery'',
        description = ''Discover secret locations and off-the-beaten-path experiences'',
        features = [''Secret viewpoints and photo spots'', ''Local-only experiences'',
          ''Hidden historical sites'', ''Underground culture spots'',
          ''Insider access to exclusive locations''],
        bonus = ''Connect with local guides for authentic experiences''\<rparr>),
      (''food_specialties'',
       \<lparr>title = ''Local Food Specialties Expert'',
        description = ''Master the art of finding authentic local cuisine'',
        features = [''Traditional recipe recommendations'', ''Local market guides'',
          ''Seasonal food calendars'', ''Cooking class connections'',
          ''Food festival information''],
        bonus = ''Access to local cooking classes and food tours''\<rparr>),
      (''photography_spots'',
       \<lparr>title = ''Photography Spots Master'',
        description = ''Unlock the best photography locations and techniques'',
        features = [''Golden hour spot recommendations'', ''Unique angle suggestions'',
          ''Local photography workshops'', ''Equipment rental discounts'',
          ''Photo editing tips''],
        bonus = ''Connect with local photographers for guided photo tours''\<rparr>)]"

definition generateRewardContent :: "string \<Rightarrow> reward_content" where
  "generateRewardContent rewardType =
     (case map_of rewards_table rewardType of
        Some c \<Rightarrow> c
      | None \<Rightarrow> \<lparr>title = ''Unknown Reward'', description = ''Reward details not available'',
                 features = [], bonus = ''Keep exploring!''\<rparr>)"

definition rewardRequirements :: "(string \<times> int) list" where
  "rewardRequirements =
     [(''restaurant_recommendations'', 50), (''hidden_gems'', 100),
      (''food_specialties'', 200), (''photography_spots'', 300)]"

text \<open>
  The three shapes of the handler's answer. \<open>Unlocked\<close> is
  \<^verbatim>\<open>{success: true, userId, rewardType, rewardContent, ...}\<close>; \<open>InsufficientPoints\<close> is
  \<^verbatim>\<open>{success: false, requiredPoints, currentPoints, pointsNeeded, ...}\<close>; \<open>UnlockFailed\<close> is
  the answer of the \<^verbatim>\<open>catch\<close> block, \<^verbatim>\<open>{success: false, error, userId, ...}\<close>. The
  formatted \<^verbatim>\<open>message\<close> and \<^verbatim>\<open>timestamp\<close> fields are left out.
\<close>

datatype unlock_response =
    Unlocked string string reward_content
  | InsufficientPoints int int int
  | UnlockFailed string string

text \<open>
  \<^verbatim>\<open>!userId\<close> holds of the empty string. A reward type that is no key of
  \<^verbatim>\<open>rewardRequirements\<close> gives \<^verbatim>\<open>undefined\<close>, and \<^verbatim>\<open>progress.points < undefined\<close> is false.
\<close>

definition unlock_reward :: "db \<Rightarrow> string \<Rightarrow> string \<Rightarrow> unlock_response \<times> db" where
  "unlock_reward d userId rewardType =
     (if userId = [] \<or> userId = ''anonymous''
      then (UnlockFailed ''User ID is required to unlock rewards'' userId, d)
      else
        (let (progress, d1) = getUserProgress d userId in
         (case map_of rewardRequirements rewardType of
            Some requiredPoints \<Rightarrow>
              if p_points progress < requiredPoints
              then (InsufficientPoints requiredPoints (p_points progress)
                      (requiredPoints - p_points progress), d1)
              else (Unlocked userId rewardType (generateRewardContent rewardType), d1)
          | None \<Rightarrow> (Unlocked userId rewardType (generateRewardContent rewardType), d1))))"

subsection \<open>Calls made one after another\<close>

text \<open>
  A list of \<^verbatim>\<open>awardPoints\<close> calls \<open>(userId, points, action)\<close>, each finishing before the
  next starts. A call that throws leaves its error in the list of results; the later calls
  are separate requests and still run.
\<close>

fun award_calls ::
  "db \<Rightarrow> (string \<times> int \<times> string) list \<Rightarrow> (error + award_result) list \<times> db" where
  "award_calls d [] = ([], d)"
| "award_calls d ((userId, points, action) # cs) =
     (let (r, d1) = awardPoints d userId points action;
          (rs, d2) = award_calls d1 cs
      in (r # rs, d2))"

definition succeeded :: "error + award_result \<Rightarrow> bool" where
  "succeeded r = (case r of Inl _ \<Rightarrow> False | Inr _ \<Rightarrow> True)"

definition stored_points :: "db \<Rightarrow> string \<Rightarrow> int" where
  "stored_points d userId = p_points (fst (getUserProgress d userId))"

definition records_of :: "db \<Rightarrow> string \<Rightarrow> string \<Rightarrow> achievement list" where
  "records_of d userId rtype =
     filter (\<lambda>a. a_userId a = Some userId \<and> achievementType a = rtype) (achievements d)"

text \<open>
  Every running total of a list of awards, starting from \<open>s\<close>, is an integer that a
  JavaScript number adds exactly: the total before each award, the points of the award,
  and the total after it are at most \<open>2^53\<close> in absolute value.
\<close>

fun totals_safe :: "int \<Rightarrow> int list \<Rightarrow> bool" where
  "totals_safe s [] = js_safe s"
| "totals_safe s (p # ps) = (js_safe s \<and> js_safe p \<and> totals_safe (s + p) ps)"

definition empty_db :: db where
  "empty_db = \<lparr>users = [], achievements = []\<rparr>"

definition achievement_keys :: "db \<Rightarrow> (string option \<times> string) list" where
  "achievement_keys d = map (\<lambda>a. (a_userId a, achievementType a)) (achievements d)"

text \<open>
  The catalog entries among \<open>rs\<close> whose threshold lies in \<open>(oldTotal, newTotal]\<close> and whose
  type no row of \<^verbatim>\<open>achievements\<close> carries, whoever the row belongs to.
\<close>

definition newly_unlocked :: "db \<Rightarrow> int \<Rightarrow> int \<Rightarrow> reward list \<Rightarrow> reward list" where
  "newly_unlocked d oldT newT rs =
     filter (\<lambda>r. oldT < r_points r \<and> r_points r \<le> newT \<and>
                 r_type r \<notin> achievementType ` set (achievements d)) rs"

subsection \<open>Calls that overlap\<close>

text \<open>
  \<^verbatim>\<open>awardPoints\<close> is an \<^verbatim>\<open>async\<close> function: it gives up control at each \<^verbatim>\<open>await\<close>, that is
  at each statement it sends to the database, and the database runs one statement at a
  time. Nothing in the function (no transaction, no lock, no conditional update) keeps the
  statements of another request from running between two of its own. A call in progress
  is the statement it is about to send together with its local variables:
  \<^item> \<open>At_select_user\<close>: the \<^verbatim>\<open>SELECT\<close> on \<^verbatim>\<open>users\<close>;
  \<^item> \<open>At_insert_user\<close>: the user was absent, the \<^verbatim>\<open>INSERT\<close> is next;
  \<^item> \<open>At_update_user oldTotal newTotal newLevel levelsGained\<close>: the \<^verbatim>\<open>UPDATE\<close> is next;
  \<^item> \<open>At_check rewards oldTotal newTotal levelsGained newlyUnlocked\<close>: the loop of
    \<^verbatim>\<open>checkUnlockedRewards\<close> with \<open>rewards\<close> still to visit;
  \<^item> \<open>At_insert_achievement r rewards \<dots>\<close>: the existence check for \<open>r\<close> found nothing,
    the \<^verbatim>\<open>INSERT\<close> into \<^verbatim>\<open>achievements\<close> is next;
  \<^item> \<open>Returned res\<close>: the call has returned or thrown.
  The action tag is only logged and is not part of a call in progress.
\<close>

datatype award_pc =
    At_select_user
  | At_insert_user
  | At_update_user int int int int
  | At_check "reward list" int int int "string list"
  | At_insert_achievement reward "reward list" int int int "string list"
  | Returned "error + award_result"

fun award_step :: "string \<Rightarrow> int \<Rightarrow> award_pc \<Rightarrow> db \<Rightarrow> award_pc \<times> db" where
  "award_step userId points At_select_user d =
     (case get_user d userId of
        None \<Rightarrow> (At_insert_user, d)
      | Some currentUser \<Rightarrow>
          (let oldTotal = or_default (totalPoints currentUser) 0;
               newTotal = js_add oldTotal points;
               oldLevel = or_default (level currentUser) 1;
               newLevel = calculateLevel newTotal
           in (At_update_user oldTotal newTotal newLevel (newLevel - oldLevel), d)))"
| "award_step userId points At_insert_user d =
     (case insert_user
             \<lparr>u_id = userId, email = ''user'' @ userId @ ''@example.com'',
              u_name = ''User '' @ userId, totalPoints = Some points, level = Some 1\<rparr> d of
        Inl e \<Rightarrow> (Returned (Inl (FailedToAwardPoints e)), d)
      | Inr d' \<Rightarrow>
          (Returned (Inr \<lparr>newTotal = points, levelsGained = 0, unlockedRewards = []\<rparr>), d'))"
| "award_step userId points (At_update_user oldT newT newL gained) d =
     (At_check rewardThresholds oldT newT gained [], update_user userId newT newL d)"
| "award_step userId points (At_check [] oldT newT gained unlocked) d =
     (Returned (Inr \<lparr>newTotal = newT, levelsGained = gained, unlockedRewards = unlocked\<rparr>), d)"
| "award_step userId points (At_check (r # rs) oldT newT gained unlocked) d =
     (if oldT < r_points r \<and> newT \<ge> r_points r then
        (case existingAchievement d userId (r_type r) of
           None \<Rightarrow> (At_insert_achievement r rs oldT newT gained unlocked, d)
         | Some _ \<Rightarrow> (At_check rs oldT newT gained unlocked, d))
      else (At_check rs oldT newT gained unlocked, d))"
| "award_step userId points (At_insert_achievement r rs oldT newT gained unlocked) d =
     (At_check rs oldT newT gained (unlocked @ [r_name r]),
      insert_achievement
        \<lparr>a_userId = Some userId, achievementType = r_type r, pointsRequired = r_points r\<rparr> d)"
| "award_step userId points (Returned res) d = (Returned res, d)"

text \<open>
  Calls in progress \<open>(userId, points, where it stands)\<close> over one database, and a schedule:
  the list of the calls' indices in the order in which they take their next step.
\<close>

type_synonym call = "string \<times> int \<times> award_pc"

fun step_call :: "nat \<Rightarrow> call list \<times> db \<Rightarrow> call list \<times> db" where
  "step_call i (cs, d) =
     (if i < length cs then
        (case cs ! i of (userId, points, pc) \<Rightarrow>
           (let (pc', d') = award_step userId points pc d
            in (cs[i := (userId, points, pc')], d')))
      else (cs, d))"

fun run_schedule :: "nat list \<Rightarrow> call list \<times> db \<Rightarrow> call list \<times> db" where
  "run_schedule [] s = s"
| "run_schedule (i # sched) s = run_schedule sched (step_call i s)"

text \<open>One call running with no other call in between: \<open>n\<close> steps of it.\<close>

primrec run_alone :: "nat \<Rightarrow> string \<Rightarrow> int \<Rightarrow> award_pc \<times> db \<Rightarrow> award_pc \<times> db" where
  "run_alone 0 userId points s = s"
| "run_alone (Suc n) userId points s =
     run_alone n userId points (award_step userId points (fst s) (snd s))"

subsection \<open>Example rows\<close>

text \<open>
  A row of \<^verbatim>\<open>users\<close> with the e-mail and name that \<^verbatim>\<open>ensureUserExists\<close> of the tool
  handlers gives a user, at a given total and level; used for concrete databases.
\<close>

definition user_row :: "string \<Rightarrow> int \<Rightarrow> int \<Rightarrow> user" where
  "user_row userId pts lvl =
     \<lparr>u_id = userId, email = userId @ ''@example.com'', u_name = ''User '' @ userId,
      totalPoints = Some pts, level = Some lvl\<rparr>"

section \<open>Properties of the ledger\<close>

lemmas ledger_defs =
  get_user_def get_q_def all_q_def where_q_def select_from_def or_default_def
  calculateLevel_def update_user_def insert_user_def insert_achievement_def
  rewardThresholds_def existingAchievement_def checkUnlockedRewards_def awardPoints_def
  getUserProgress_def getNextReward_def stored_points_def succeeded_def empty_db_def
  records_of_def user_row_def js_add_def js_safe_def

subsection \<open>Queries\<close>

lemma get_q_find: "get_q (where_q c (select_from xs)) = List.find c xs"
  by (induction xs) (auto simp: get_q_def all_q_def where_q_def select_from_def split: list.splits)

lemma where_q_twice: "where_q c2 (where_q c1 q) = where_q c2 q"
  by (simp add: where_q_def)

lemma get_user_find: "get_user d u = List.find (\<lambda>x. u_id x = u) (users d)"
  by (simp add: get_user_def get_q_find)

lemma existingAchievement_find:
  "existingAchievement d u t = List.find (\<lambda>a. achievementType a = t) (achievements d)"
  by (simp add: existingAchievement_def where_q_twice get_q_find)

lemma existingAchievement_None:
  "existingAchievement d u t = None \<longleftrightarrow> t \<notin> achievementType ` set (achievements d)"
  by (auto simp: existingAchievement_find find_None_iff)

lemma find_update_user:
  "List.find (\<lambda>x. u_id x = u)
     (map (\<lambda>x. if u_id x = u then x\<lparr>totalPoints := Some n, level := Some l\<rparr> else x) xs)
   = map_option (\<lambda>x. x\<lparr>totalPoints := Some n, level := Some l\<rparr>)
       (List.find (\<lambda>x. u_id x = u) xs)"
  by (induction xs) auto

lemma get_user_update_user:
  "get_user (update_user u n l d) u =
     map_option (\<lambda>x. x\<lparr>totalPoints := Some n, level := Some l\<rparr>) (get_user d u)"
  by (simp add: get_user_find update_user_def find_update_user)

lemma find_append_None: "List.find P xs = None \<Longrightarrow> List.find P (xs @ ys) = List.find P ys"
  by (induction xs) (auto split: if_splits)

lemma or_default_Some_0: "or_default (Some n) 0 = n"
  by (simp add: or_default_def)

subsection \<open>The addition of JavaScript numbers\<close>

lemma bit_length_le: "m < 2 ^ k \<Longrightarrow> bit_length m \<le> k"
proof (induction k arbitrary: m)
  case 0
  then show ?case by (simp add: bit_length.simps)
next
  case (Suc k)
  then have "m div 2 < 2 ^ k" by simp
  from Suc.IH[OF this] show ?case by (subst bit_length.simps) simp
qed

lemma bit_length_2_53: "bit_length 9007199254740992 = 54"
  by (simp add: bit_length.simps)

text \<open>Up to \<open>2^53\<close> nothing is rounded, so \<open>js_add\<close> is the rounded exact sum throughout.\<close>

lemma round_double_safe:
  assumes "js_safe n"
  shows "round_double n = n"
proof (cases "\<bar>n\<bar> = 9007199254740992")
  case False
  with assms have "nat \<bar>n\<bar> < 2 ^ 53" by (simp add: js_safe_def)
  then have "bit_length (nat \<bar>n\<bar>) \<le> 53" by (rule bit_length_le)
  then have "bit_length (nat \<bar>n\<bar>) - 53 = 0" by simp
  then show ?thesis
    unfolding round_double_def Let_def by (simp add: mult_sgn_abs)
next
  case True
  then have m: "nat \<bar>n\<bar> = 9007199254740992" by simp
  from True have "n = 9007199254740992 \<or> n = - 9007199254740992" by auto
  then show ?thesis
    unfolding round_double_def Let_def m bit_length_2_53 by auto
qed

lemma js_add_round_double: "js_add a b = round_double (a + b)"
  by (simp add: js_add_def round_double_safe)

lemma js_add_safe: "js_safe (a + b) \<Longrightarrow> js_add a b = a + b"
  by (simp add: js_add_def)

text \<open>\<open>2^53 + 1\<close> is no value of a JavaScript number: the sum is \<open>2^53\<close>.\<close>

lemma bit_length_2_53_1: "bit_length 9007199254740993 = 54"
  by (simp add: bit_length.simps)

lemma round_double_2_53_1: "round_double 9007199254740993 = 9007199254740992"
  unfolding round_double_def Let_def by (simp add: bit_length_2_53_1)

lemma js_add_2_53_1: "js_add 9007199254740992 1 = 9007199254740992"
  by (simp add: js_add_def js_safe_def round_double_2_53_1)

subsection \<open>The loop of checkUnlockedRewards\<close>

lemma checkRewards_loop_users:
  "users (snd (checkRewards_loop rs u oldT newT acc d)) = users d"
  by (induction rs u oldT newT acc d rule: checkRewards_loop.induct)
     (auto simp: insert_achievement_def split: option.splits)

lemma newly_unlocked_insert:
  "t \<notin> r_type ` set rs \<Longrightarrow>
   newly_unlocked
     (insert_achievement \<lparr>a_userId = w, achievementType = t, pointsRequired = q\<rparr> d) oldT newT rs
   = newly_unlocked d oldT newT rs"
  unfolding newly_unlocked_def by (rule filter_cong) (auto simp: insert_achievement_def)

text \<open>
  What the loop returns and writes, for a catalog whose types are pairwise different: the
  names of the newly unlocked entries in catalog order, and one new row for each of them.
\<close>

lemma checkRewards_loop_char:
  "distinct (map r_type rs) \<Longrightarrow>
   checkRewards_loop rs u oldT newT acc d =
     (acc @ map r_name (newly_unlocked d oldT newT rs),
      d\<lparr>achievements := achievements d @
          map (\<lambda>r. \<lparr>a_userId = Some u, achievementType = r_type r, pointsRequired = r_points r\<rparr>)
              (newly_unlocked d oldT newT rs)\<rparr>)"
proof (induction rs arbitrary: acc d)
  case Nil
  then show ?case by (simp add: newly_unlocked_def)
next
  case (Cons r rs)
  from Cons.prems have d: "distinct (map r_type rs)" and n: "r_type r \<notin> r_type ` set rs"
    by auto
  show ?case
  proof (cases "oldT < r_points r \<and> r_points r \<le> newT \<and>
                r_type r \<notin> achievementType ` set (achievements d)")
    case True
    then have ex: "existingAchievement d u (r_type r) = None"
      by (simp add: existingAchievement_None)
    have hd: "newly_unlocked d oldT newT (r # rs) = r # newly_unlocked d oldT newT rs"
      using True by (simp add: newly_unlocked_def)
    show ?thesis using True ex
      by (simp add: Cons.IH[OF d] newly_unlocked_insert[OF n] hd)
         (simp add: insert_achievement_def)
  next
    case False
    then have hd: "newly_unlocked d oldT newT (r # rs) = newly_unlocked d oldT newT rs"
      by (auto simp: newly_unlocked_def)
    from False have "\<not> (oldT < r_points r \<and> r_points r \<le> newT) \<or>
        existingAchievement d u (r_type r) \<noteq> None"
      by (auto simp: existingAchievement_None)
    then show ?thesis
      by (auto simp: Cons.IH[OF d] hd)
  qed
qed

lemma rewardThresholds_distinct: "distinct (map r_type rewardThresholds)"
  by (simp add: rewardThresholds_def)

lemma checkUnlockedRewards_char:
  "checkUnlockedRewards d u oldT newT =
     (map r_name (newly_unlocked d oldT newT rewardThresholds),
      d\<lparr>achievements := achievements d @
          map (\<lambda>r. \<lparr>a_userId = Some u, achievementType = r_type r, pointsRequired = r_points r\<rparr>)
              (newly_unlocked d oldT newT rewardThresholds)\<rparr>)"
  by (simp add: checkUnlockedRewards_def checkRewards_loop_char[OF rewardThresholds_distinct])

subsection \<open>One call of awardPoints\<close>

lemma getUserProgress_db: "snd (getUserProgress d u) = d"
  by (simp add: getUserProgress_def Let_def split: option.splits)

lemma stored_points_alt:
  "stored_points d u =
     (case get_user d u of None \<Rightarrow> 0 | Some r \<Rightarrow> or_default (totalPoints r) 0)"
  by (simp add: stored_points_def getUserProgress_def Let_def split: option.splits)

lemma awardPoints_absent:
  assumes "get_user d u = None"
  shows "awardPoints d u p a =
     (case insert_user \<lparr>u_id = u, email = ''user'' @ u @ ''@example.com'',
                   u_name = ''User '' @ u, totalPoints = Some p, level = Some 1\<rparr> d of
        Inl e \<Rightarrow> (Inl (FailedToAwardPoints e), d)
      | Inr d' \<Rightarrow> (Inr \<lparr>newTotal = p, levelsGained = 0, unlockedRewards = []\<rparr>, d'))"
  using assms by (simp add: awardPoints_def)

lemma awardPoints_existing:
  assumes "get_user d u = Some cu"
  shows "fst (awardPoints d u p a) =
     Inr \<lparr>newTotal = js_add (or_default (totalPoints cu) 0) p,
          levelsGained =
            calculateLevel (js_add (or_default (totalPoints cu) 0) p) - or_default (level cu) 1,
          unlockedRewards = fst (checkUnlockedRewards
             (update_user u (js_add (or_default (totalPoints cu) 0) p)
                (calculateLevel (js_add (or_default (totalPoints cu) 0) p)) d)
             u (or_default (totalPoints cu) 0) (js_add (or_default (totalPoints cu) 0) p))\<rparr>"
  and "snd (awardPoints d u p a) = snd (checkUnlockedRewards
             (update_user u (js_add (or_default (totalPoints cu) 0) p)
                (calculateLevel (js_add (or_default (totalPoints cu) 0) p)) d)
             u (or_default (totalPoints cu) 0) (js_add (or_default (totalPoints cu) 0) p))"
  using assms by (simp_all add: awardPoints_def Let_def split: prod.splits)

lemma awardPoints_existing_user:
  assumes "get_user d u = Some cu"
  shows "get_user (snd (awardPoints d u p a)) u =
     Some (cu\<lparr>totalPoints := Some (js_add (or_default (totalPoints cu) 0) p),
              level := Some (calculateLevel (js_add (or_default (totalPoints cu) 0) p))\<rparr>)"
  using assms
  by (simp add: awardPoints_existing(2)[OF assms] checkUnlockedRewards_def
        get_user_find[of "snd _"] checkRewards_loop_users)
     (simp add: get_user_find[symmetric] get_user_update_user)

lemma awardPoints_stored_points:
  assumes "succeeded (fst (awardPoints d u p a))" and "js_safe (stored_points d u + p)"
  shows "stored_points (snd (awardPoints d u p a)) u = stored_points d u + p"
proof (cases "get_user d u")
  case None
  then have f: "List.find (\<lambda>x. u_id x = u) (users d) = None" by (simp add: get_user_find)
  from assms(1) None show ?thesis
    by (auto simp: awardPoints_absent insert_user_def succeeded_def stored_points_alt
          get_user_find find_append_None[OF f] or_default_Some_0 split: if_splits)
next
  case (Some cu)
  with assms(2) show ?thesis
    by (simp add: stored_points_alt awardPoints_existing_user or_default_Some_0 js_add_safe)
qed

lemma update_user_achievements: "achievements (update_user u n l d) = achievements d"
  by (simp add: update_user_def)

lemma awardPoints_achievements:
  "achievements (snd (awardPoints d u p a)) =
     (case get_user d u of
        None \<Rightarrow> achievements d
      | Some cu \<Rightarrow> achievements d @
          map (\<lambda>r. \<lparr>a_userId = Some u, achievementType = r_type r, pointsRequired = r_points r\<rparr>)
            (newly_unlocked d (or_default (totalPoints cu) 0) (js_add (or_default (totalPoints cu) 0) p)
               rewardThresholds))"
proof (cases "get_user d u")
  case None
  then show ?thesis
    by (auto simp: awardPoints_absent insert_user_def split: sum.splits if_splits)
next
  case (Some cu)
  have n: "newly_unlocked (update_user u n l d) x y rs = newly_unlocked d x y rs" for n l x y rs
    by (simp add: newly_unlocked_def update_user_achievements)
  from Some show ?thesis
    by (simp add: awardPoints_existing(2) checkUnlockedRewards_char n update_user_achievements)
qed

lemma award_calls_Cons:
  "fst (award_calls d ((u, p, a) # cs)) =
     fst (awardPoints d u p a) # fst (award_calls (snd (awardPoints d u p a)) cs)"
  "snd (award_calls d ((u, p, a) # cs)) = snd (award_calls (snd (awardPoints d u p a)) cs)"
  by (simp_all add: Let_def case_prod_beta)

subsection \<open>The steps of a call, run without interruption, are awardPoints\<close>

lemma run_alone_Returned: "run_alone n u p (Returned r, d) = (Returned r, d)"
  by (induction n) auto

lemma run_alone_check:
  "2 * length rs + 1 \<le> n \<Longrightarrow>
   run_alone n u p (At_check rs oldT newT g acc, d) =
     (Returned (Inr \<lparr>newTotal = newT, levelsGained = g,
         unlockedRewards = fst (checkRewards_loop rs u oldT newT acc d)\<rparr>),
      snd (checkRewards_loop rs u oldT newT acc d))"
proof (induction rs arbitrary: acc d n)
  case Nil
  then obtain m where n: "n = Suc m" by (cases n) auto
  show ?case unfolding n by (simp add: run_alone_Returned)
next
  case (Cons r rs)
  from Cons.prems obtain m where n: "n = Suc (Suc m)" and m: "2 * length rs + 1 \<le> m"
    by (cases n; cases "n - 1") auto
  from m have m': "2 * length rs + 1 \<le> Suc m" by simp
  show ?case
  proof (cases "oldT < r_points r \<and> newT \<ge> r_points r")
    case False
    then show ?thesis unfolding n using Cons.IH[OF m'] by auto
  next
    case True
    show ?thesis
    proof (cases "existingAchievement d u (r_type r)")
      case None
      with True show ?thesis unfolding n using Cons.IH[OF m] by simp
    next
      case (Some x)
      with True show ?thesis unfolding n using Cons.IH[OF m'] by simp
    qed
  qed
qed

text \<open>
  Eleven steps are enough for any call (the select, the update, and at most two
  statements for each of the four catalog entries, then the return); a call that runs
  them with nothing in between returns what \<open>awardPoints\<close> returns and leaves the database
  \<open>awardPoints\<close> leaves.
\<close>

lemma run_alone_awardPoints:
  assumes "11 \<le> n"
  shows "run_alone n u p (At_select_user, d) =
     (Returned (fst (awardPoints d u p a)), snd (awardPoints d u p a))"
proof -
  from assms obtain m where n: "n = Suc (Suc m)" and m: "9 \<le> m"
    by (cases n; cases "n - 1") auto
  show ?thesis
  proof (cases "get_user d u")
    case None
    then show ?thesis unfolding n
      by (auto simp: awardPoints_absent run_alone_Returned split: sum.splits)
  next
    case (Some cu)
    from m have "2 * length rewardThresholds + 1 \<le> m" by (simp add: rewardThresholds_def)
    from run_alone_check[OF this] Some show ?thesis unfolding n
      by (simp add: awardPoints_def Let_def checkUnlockedRewards_def split: prod.splits)
  qed
qed

lemma run_schedule_alone:
  "run_schedule (replicate n 0) ([(u, p, pc)], d) =
     ([(u, p, fst (run_alone n u p (pc, d)))], snd (run_alone n u p (pc, d)))"
  by (induction n arbitrary: pc d) (auto simp: Let_def split: prod.splits)

subsection \<open>The running total\<close>

text \<open>
  Two calls for one user whose statements interleave: both read the stored total 10, the
  first writes 15, the second writes 17 over it. Both return normally, and the 5 points
  of the first are gone: the stored total is 17, not 10 + 5 + 7.
\<close>

theorem overlapping_awards_lose_points:
  "run_schedule [0, 1, 0, 1, 0, 0, 0, 0, 0, 1, 1, 1, 1, 1]
     ([(''u1'', 5, At_select_user), (''u1'', 7, At_select_user)],
      \<lparr>users = [user_row ''u1'' 10 1], achievements = []\<rparr>)
   = ([(''u1'', 5,
        Returned (Inr \<lparr>newTotal = 15, levelsGained = 0, unlockedRewards = []\<rparr>)),
       (''u1'', 7,
        Returned (Inr \<lparr>newTotal = 17, levelsGained = 0, unlockedRewards = []\<rparr>))],
      \<lparr>users = [user_row ''u1'' 17 1], achievements = []\<rparr>) \<and>
   stored_points \<lparr>users = [user_row ''u1'' 10 1], achievements = []\<rparr> ''u1'' = 10 \<and>
   stored_points \<lparr>users = [user_row ''u1'' 17 1], achievements = []\<rparr> ''u1'' = 17 \<and>
   stored_points \<lparr>users = [user_row ''u1'' 17 1], achievements = []\<rparr> ''u1''
     \<noteq> stored_points \<lparr>users = [user_row ''u1'' 10 1], achievements = []\<rparr> ''u1'' + (5 + 7)"
  by (simp add: ledger_defs)

text \<open>
  At a stored total of \<open>2^53\<close> a successful award of one point leaves the stored total at
  \<open>2^53\<close>: the sum is rounded.
\<close>

lemma award_of_one_point_at_2_53:
  "awardPoints
     \<lparr>users = [user_row ''u1'' 9007199254740992 180143985094820], achievements = []\<rparr>
     ''u1'' 1 ''weather'' =
     (Inr \<lparr>newTotal = 9007199254740992, levelsGained = 0, unlockedRewards = []\<rparr>,
      \<lparr>users = [user_row ''u1'' 9007199254740992 180143985094820], achievements = []\<rparr>)"
  by (simp add: get_user_def get_q_def all_q_def where_q_def select_from_def or_default_def
        calculateLevel_def update_user_def rewardThresholds_def existingAchievement_def
        checkUnlockedRewards_def awardPoints_def user_row_def js_add_2_53_1)

lemma totals_safe_start: "totals_safe s ps \<Longrightarrow> js_safe s"
  by (cases ps) auto

text \<open>
  C1, as the code has it. When the Award calls for a user run one after another, each
  finishing before the next starts, all of them succeed, and every running total is an
  integer that a JavaScript number adds exactly (the total before each award, its points
  and the total after it are at most \<open>2^53\<close> in absolute value), the stored total after
  the last call is the stored total before the first plus the sum of the awarded points
  (the stored total of a user with no record counts as 0). Calls that overlap are not
  covered: they can lose an award, as the schedule above shows. Totals beyond \<open>2^53\<close>
  are not covered either: there the addition rounds.
\<close>

theorem sequential_awards_add_up:
  assumes "list_all succeeded (fst (award_calls d (map (\<lambda>(p, a). (u, p, a)) cs)))"
    and "totals_safe (stored_points d u) (map fst cs)"
  shows "stored_points (snd (award_calls d (map (\<lambda>(p, a). (u, p, a)) cs))) u
           = stored_points d u + sum_list (map fst cs)"
  using assms
proof (induction cs arbitrary: d)
  case Nil
  then show ?case by simp
next
  case (Cons c cs)
  obtain p a where c: "c = (p, a)" by (cases c)
  let ?d1 = "snd (awardPoints d u p a)"
  let ?rest = "map (\<lambda>(p, a). (u, p, a)) cs"
  have m: "map (\<lambda>(p, a). (u, p, a)) (c # cs) = (u, p, a) # ?rest" by (simp add: c)
  from Cons.prems(1) have ok: "succeeded (fst (awardPoints d u p a))"
    and rest: "list_all succeeded (fst (award_calls ?d1 ?rest))"
    unfolding m award_calls_Cons by simp_all
  from Cons.prems(2) have ts: "totals_safe (stored_points d u + p) (map fst cs)"
    by (simp add: c)
  then have safe: "js_safe (stored_points d u + p)" by (rule totals_safe_start)
  have st: "stored_points ?d1 u = stored_points d u + p"
    by (rule awardPoints_stored_points[OF ok safe])
  from ts st have "totals_safe (stored_points ?d1 u) (map fst cs)" by simp
  from Cons.IH[OF rest this] st show ?case
    unfolding m award_calls_Cons by (simp add: c)
qed

theorem sequential_awards_add_up_witness:
  "list_all succeeded
     (fst (award_calls empty_db [(''u1'', 48, ''save_place''), (''u1'', 5, ''weather'')])) \<and>
   totals_safe (stored_points empty_db ''u1'') [48, 5] \<and>
   stored_points
     (snd (award_calls empty_db [(''u1'', 48, ''save_place''), (''u1'', 5, ''weather'')])) ''u1''
     = stored_points empty_db ''u1'' + (48 + 5)"
proof -
  have h: "list_all succeeded
     (fst (award_calls empty_db
        (map (\<lambda>(p, a). (''u1'', p, a)) [(48, ''save_place''), (5, ''weather'')])))"
    by (simp add: ledger_defs Let_def)
  have t: "totals_safe (stored_points empty_db ''u1'')
             (map fst [(48, ''save_place''), (5::int, ''weather'')])"
    by (simp add: ledger_defs)
  from sequential_awards_add_up[OF h t] h t show ?thesis by simp
qed

subsection \<open>The stored level\<close>

text \<open>On a user that has a record, the level written is the level of the total written.\<close>

lemma awardPoints_existing_level:
  assumes "get_user d u = Some cu"
  shows "\<exists>r. get_user (snd (awardPoints d u p a)) u = Some r \<and>
             totalPoints r = Some (js_add (or_default (totalPoints cu) 0) p) \<and>
             level r = Some (calculateLevel (js_add (or_default (totalPoints cu) 0) p))"
  by (simp add: awardPoints_existing_user[OF assms])

text \<open>
  C2, at the input where the code departs from it. The first award of a user creates the
  record with the awarded points and the constant level 1. With 50 points the stored
  level is 1, while \<open>floor(50 / 50) + 1 = 2\<close>.
\<close>

theorem created_user_keeps_level_one:
  "awardPoints empty_db ''u1'' 50 ''bonus'' =
     (Inr \<lparr>newTotal = 50, levelsGained = 0, unlockedRewards = []\<rparr>,
      \<lparr>users = [\<lparr>u_id = ''u1'', email = ''useru1@example.com'', u_name = ''User u1'',
                 totalPoints = Some 50, level = Some 1\<rparr>],
       achievements = []\<rparr>) \<and>
   calculateLevel 50 = 2"
  by (simp add: ledger_defs)

subsection \<open>Levels gained\<close>

lemma calculateLevel_mono: "x \<le> y \<Longrightarrow> calculateLevel x \<le> calculateLevel y"
  by (simp add: calculateLevel_def zdiv_mono1)

text \<open>
  When the stored level is the level of the stored total, the points are not negative
  and the new total is at most \<open>2^53\<close>, the levels gained are the difference of the two
  levels, and not negative.
\<close>

lemma levelsGained_consistent_level:
  assumes "get_user d u = Some cu"
    and "or_default (level cu) 1 = calculateLevel (or_default (totalPoints cu) 0)"
    and "0 \<le> p" and "js_safe (or_default (totalPoints cu) 0 + p)"
  shows "\<exists>res. fst (awardPoints d u p a) = Inr res \<and>
           levelsGained res = calculateLevel (or_default (totalPoints cu) 0 + p)
                              - calculateLevel (or_default (totalPoints cu) 0) \<and>
           0 \<le> levelsGained res"
  using assms calculateLevel_mono[of "or_default (totalPoints cu) 0" "or_default (totalPoints cu) 0 + p"]
  by (simp add: awardPoints_existing(1) js_add_safe)

text \<open>
  C4, at the input where the code departs from it. \<open>levelsGained\<close> is computed from the
  stored level, not from the level of the stored total. A user created with 50 points has
  the stored level 1; the next award of 5 points returns \<open>levelsGained = 1\<close>, while
  \<open>levelOf(55) - levelOf(50) = 0\<close>.
\<close>

theorem levelsGained_after_creation_with_50:
  "award_calls empty_db [(''u1'', 50, ''bonus''), (''u1'', 5, ''weather'')] =
     ([Inr \<lparr>newTotal = 50, levelsGained = 0, unlockedRewards = []\<rparr>,
       Inr \<lparr>newTotal = 55, levelsGained = 1, unlockedRewards = []\<rparr>],
      \<lparr>users = [\<lparr>u_id = ''u1'', email = ''useru1@example.com'', u_name = ''User u1'',
                 totalPoints = Some 55, level = Some 2\<rparr>],
       achievements = []\<rparr>) \<and>
   calculateLevel 55 - calculateLevel 50 = 0"
  by (simp add: ledger_defs)

subsection \<open>One record for a user and a type\<close>

lemma newly_unlocked_keys_distinct:
  assumes "distinct (achievement_keys d)"
  shows "distinct (achievement_keys d @
           map (\<lambda>r. (Some u, r_type r)) (newly_unlocked d x y rewardThresholds))"
proof -
  have 1: "distinct (map (\<lambda>r. (Some u, r_type r)) (newly_unlocked d x y rewardThresholds))"
  proof -
    have "distinct (map r_type (newly_unlocked d x y rewardThresholds))"
      unfolding newly_unlocked_def by (rule distinct_map_filter[OF rewardThresholds_distinct])
    then show ?thesis by (simp add: distinct_map inj_on_def)
  qed
  have 2: "set (achievement_keys d) \<inter>
      set (map (\<lambda>r. (Some u, r_type r)) (newly_unlocked d x y rewardThresholds)) = {}"
    by (auto simp: achievement_keys_def newly_unlocked_def image_iff)
  from assms 1 2 show ?thesis by simp
qed

lemma awardPoints_keys_distinct:
  assumes "distinct (achievement_keys d)"
  shows "distinct (achievement_keys (snd (awardPoints d u p a)))"
proof (cases "get_user d u")
  case None
  with assms show ?thesis by (simp add: achievement_keys_def awardPoints_achievements)
next
  case (Some cu)
  from newly_unlocked_keys_distinct[OF assms, of u] Some show ?thesis
    by (simp add: achievement_keys_def awardPoints_achievements comp_def)
qed

lemma award_calls_keys_distinct:
  "distinct (achievement_keys d) \<Longrightarrow> distinct (achievement_keys (snd (award_calls d cs)))"
proof (induction cs arbitrary: d)
  case Nil
  then show ?case by simp
next
  case (Cons c cs)
  obtain u p a where c: "c = (u, p, a)" by (cases c)
  from Cons.IH[OF awardPoints_keys_distinct[OF Cons.prems]] show ?case
    unfolding c award_calls_Cons .
qed

lemma distinct_keys_at_most_one:
  "distinct (map f xs) \<Longrightarrow> length (filter (\<lambda>x. f x = k) xs) \<le> 1"
  by (induction xs) (auto simp: filter_empty_conv image_iff)

lemma records_of_length:
  assumes "distinct (achievement_keys d)"
  shows "length (records_of d u t) \<le> 1"
proof -
  from assms
  have "length (filter (\<lambda>a. (a_userId a, achievementType a) = (Some u, t)) (achievements d)) \<le> 1"
    unfolding achievement_keys_def by (rule distinct_keys_at_most_one)
  then show ?thesis by (simp add: records_of_def)
qed

text \<open>
  Two calls for one user at 95 points whose statements interleave: both read 95, both
  cross 100, both run the existence check before either inserts, and both insert. The
  table ends with two \<open>hidden_gems\<close> records of the same user.
\<close>

theorem overlapping_awards_duplicate_record:
  "run_schedule [0, 1, 0, 1, 0, 0, 1, 1, 0, 1, 0, 0, 0, 1, 1, 1]
     ([(''u1'', 10, At_select_user), (''u1'', 10, At_select_user)],
      \<lparr>users = [user_row ''u1'' 95 2], achievements = []\<rparr>)
   = ([(''u1'', 10,
        Returned (Inr \<lparr>newTotal = 105, levelsGained = 1,
                       unlockedRewards = [''Hidden Gems Discovery'']\<rparr>)),
       (''u1'', 10,
        Returned (Inr \<lparr>newTotal = 105, levelsGained = 1,
                       unlockedRewards = [''Hidden Gems Discovery'']\<rparr>))],
      \<lparr>users = [user_row ''u1'' 105 3],
       achievements =
         [\<lparr>a_userId = Some ''u1'', achievementType = ''hidden_gems'', pointsRequired = 100\<rparr>,
          \<lparr>a_userId = Some ''u1'', achievementType = ''hidden_gems'', pointsRequired = 100\<rparr>]\<rparr>) \<and>
   length (records_of
      (snd (run_schedule [0, 1, 0, 1, 0, 0, 1, 1, 0, 1, 0, 0, 0, 1, 1, 1]
         ([(''u1'', 10, At_select_user), (''u1'', 10, At_select_user)],
          \<lparr>users = [user_row ''u1'' 95 2], achievements = []\<rparr>)))
      ''u1'' ''hidden_gems'') = 2"
  by (simp add: ledger_defs)

text \<open>
  C5, as the code has it. When Award calls (of any users, with any points) run one after
  another, and the table holds at most one record for each pair of user and type before
  the first call, it holds at most one record for each pair after the last: a threshold
  that is crossed or evaluated again adds no second record. Calls that overlap are not
  covered (the schedule above), and nothing is said here on whether a crossing creates
  the record.
\<close>

theorem sequential_awards_one_record_per_pair:
  assumes "distinct (achievement_keys d)"
  shows "length (records_of (snd (award_calls d cs)) u t) \<le> 1"
  by (rule records_of_length[OF award_calls_keys_distinct[OF assms]])

theorem sequential_awards_one_record_per_pair_witness:
  "distinct (achievement_keys empty_db) \<and>
   length (records_of (snd (award_calls empty_db
      [(''u1'', 95, ''save''), (''u1'', 10, ''save''), (''u1'', - 10, ''undo''),
       (''u1'', 10, ''save'')]))
      ''u1'' ''hidden_gems'') = 1"
proof -
  have h: "distinct (achievement_keys empty_db)"
    by (simp add: achievement_keys_def empty_db_def)
  have "length (records_of (snd (award_calls empty_db
      [(''u1'', 95, ''save''), (''u1'', 10, ''save''), (''u1'', - 10, ''undo''),
       (''u1'', 10, ''save'')]))
      ''u1'' ''hidden_gems'') \<ge> 1"
    by (simp add: ledger_defs)
  with sequential_awards_one_record_per_pair[OF h,
      of "[(''u1'', 95, ''save''), (''u1'', 10, ''save''), (''u1'', - 10, ''undo''),
           (''u1'', 10, ''save'')]" "''u1''" "''hidden_gems''"] h
  show ?thesis by simp
qed

subsection \<open>The existence check\<close>

lemma rewardThresholds_names: "inj_on r_name (set rewardThresholds)"
  by (simp add: rewardThresholds_def)

lemma rewardThresholds_types: "inj_on r_type (set rewardThresholds)"
  by (simp add: rewardThresholds_def)

lemma filter_the_one:
  "distinct xs \<Longrightarrow> r \<in> set xs \<Longrightarrow> filter (\<lambda>x. x = r) xs = [r]"
  by (induction xs) (auto simp: filter_empty_conv)

text \<open>
  The other direction: when no record of the type of \<open>r\<close> is in the table, a call that
  crosses the threshold of \<open>r\<close> returns the name of \<open>r\<close> and adds exactly one record for the
  user, with the threshold as \<open>pointsRequired\<close>.
\<close>

lemma crossing_creates_record:
  assumes "get_user d u = Some cu"
    and "r \<in> set rewardThresholds"
    and "or_default (totalPoints cu) 0 < r_points r"
    and "r_points r \<le> js_add (or_default (totalPoints cu) 0) p"
    and "r_type r \<notin> achievementType ` set (achievements d)"
  shows "(\<exists>res. fst (awardPoints d u p act) = Inr res \<and> r_name r \<in> set (unlockedRewards res)) \<and>
         records_of (snd (awardPoints d u p act)) u (r_type r) =
           [\<lparr>a_userId = Some u, achievementType = r_type r, pointsRequired = r_points r\<rparr>]"
proof -
  let ?old = "or_default (totalPoints cu) 0"
  let ?nu = "newly_unlocked d ?old (js_add ?old p) rewardThresholds"
  let ?row = "\<lambda>r. \<lparr>a_userId = Some u, achievementType = r_type r, pointsRequired = r_points r\<rparr>"
  have n: "newly_unlocked (update_user u n l d) x y rs = newly_unlocked d x y rs" for n l x y rs
    by (simp add: newly_unlocked_def update_user_achievements)
  from assms(2-5) have mem: "r \<in> set ?nu" by (simp add: newly_unlocked_def)
  have sub: "set ?nu \<subseteq> set rewardThresholds" by (auto simp: newly_unlocked_def)
  have dist: "distinct (map r_type ?nu)"
    unfolding newly_unlocked_def by (rule distinct_map_filter[OF rewardThresholds_distinct])
  have only: "filter (\<lambda>x. r_type x = r_type r) ?nu = [r]"
  proof -
    have "filter (\<lambda>x. r_type x = r_type r) ?nu = filter (\<lambda>x. x = r) ?nu"
    proof (rule filter_cong[OF refl])
      fix x assume "x \<in> set ?nu"
      with sub assms(2) rewardThresholds_types show "(r_type x = r_type r) = (x = r)"
        by (auto dest: inj_onD)
    qed
    moreover from dist have "distinct ?nu" by (simp add: distinct_map)
    ultimately show ?thesis using mem by (simp add: filter_the_one)
  qed
  from mem assms(1)
  have 1: "\<exists>res. fst (awardPoints d u p act) = Inr res \<and> r_name r \<in> set (unlockedRewards res)"
    by (simp add: awardPoints_existing(1) checkUnlockedRewards_char n)
  from assms(5) have old: "records_of d u (r_type r) = []"
    by (auto simp: records_of_def filter_empty_conv image_iff)
  have new: "filter (\<lambda>a. a_userId a = Some u \<and> achievementType a = r_type r) (map ?row ?nu)
        = [?row r]"
    using only by (simp add: filter_map comp_def)
  from assms(1) have ach: "achievements (snd (awardPoints d u p act)) = achievements d @ map ?row ?nu"
    by (simp add: awardPoints_achievements)
  have 2: "records_of (snd (awardPoints d u p act)) u (r_type r) = [?row r]"
    unfolding records_of_def ach using old[unfolded records_of_def] new by simp
  from 1 2 show ?thesis by simp
qed

text \<open>
  C3, where the code departs from it. Let user \<open>u\<close> have a record, let an Award call of
  \<open>u\<close> cross the threshold of the catalog entry \<open>r\<close> (old total below the threshold,
  old total plus points at or above it), and let the table hold no achievement record
  for \<open>u\<close> and the type of \<open>r\<close>: this is the case in which a record is to be created and
  the name of \<open>r\<close> returned. If the table holds a record \<open>a\<close> of that type (it then belongs
  to someone else), the call succeeds, the name of \<open>r\<close> is not among the unlocked rewards
  it returns, and the user still has no record of that type after the call.
\<close>

theorem crossing_without_own_record_not_recorded:
  assumes "get_user d u = Some cu"
    and "r \<in> set rewardThresholds"
    and "or_default (totalPoints cu) 0 < r_points r"
    and "r_points r \<le> or_default (totalPoints cu) 0 + p"
    and "records_of d u (r_type r) = []"
    and "a \<in> set (achievements d)" and "achievementType a = r_type r"
  shows "(\<exists>res. fst (awardPoints d u p act) = Inr res \<and> r_name r \<notin> set (unlockedRewards res)) \<and>
         records_of (snd (awardPoints d u p act)) u (r_type r) = []"
proof -
  let ?old = "or_default (totalPoints cu) 0"
  let ?nu = "newly_unlocked d ?old (js_add ?old p) rewardThresholds"
  have n: "newly_unlocked (update_user u n l d) x y rs = newly_unlocked d x y rs" for n l x y rs
    by (simp add: newly_unlocked_def update_user_achievements)
  from assms(6,7) have "r_type r \<in> achievementType ` set (achievements d)" by (metis imageI)
  then have notin: "r \<notin> set ?nu" by (simp add: newly_unlocked_def)
  have sub: "set ?nu \<subseteq> set rewardThresholds" by (auto simp: newly_unlocked_def)
  have names: "r_name r \<notin> r_name ` set ?nu"
  proof
    assume "r_name r \<in> r_name ` set ?nu"
    then obtain x where x: "x \<in> set ?nu" "r_name x = r_name r" by auto
    with sub assms(2) rewardThresholds_names have "x = r" by (auto dest: inj_onD)
    with x notin show False by simp
  qed
  have types: "r_type r \<notin> r_type ` set ?nu"
  proof
    assume "r_type r \<in> r_type ` set ?nu"
    then obtain x where x: "x \<in> set ?nu" "r_type x = r_type r" by auto
    with sub assms(2) rewardThresholds_types have "x = r" by (auto dest: inj_onD)
    with x notin show False by simp
  qed
  from names assms(1)
  have 1: "\<exists>res. fst (awardPoints d u p act) = Inr res \<and> r_name r \<notin> set (unlockedRewards res)"
    by (simp add: awardPoints_existing(1) checkUnlockedRewards_char n)
  from types have "filter (\<lambda>a. a_userId a = Some u \<and> achievementType a = r_type r)
      (map (\<lambda>r. \<lparr>a_userId = Some u, achievementType = r_type r, pointsRequired = r_points r\<rparr>)
         ?nu) = []"
    by (auto simp: filter_empty_conv image_iff)
  with assms(1,5)
  have 2: "records_of (snd (awardPoints d u p act)) u (r_type r) = []"
    by (simp add: records_of_def awardPoints_achievements)
  from 1 2 show ?thesis by simp
qed

theorem crossing_without_own_record_not_recorded_witness:
  "snd (award_calls empty_db
          [(''u2'', 48, ''save''), (''u2'', 5, ''weather''), (''u1'', 48, ''save'')]) =
     \<lparr>users = [\<lparr>u_id = ''u2'', email = ''useru2@example.com'', u_name = ''User u2'',
                totalPoints = Some 53, level = Some 2\<rparr>,
               \<lparr>u_id = ''u1'', email = ''useru1@example.com'', u_name = ''User u1'',
                totalPoints = Some 48, level = Some 1\<rparr>],
      achievements =
        [\<lparr>a_userId = Some ''u2'', achievementType = ''restaurant_recommendations'',
          pointsRequired = 50\<rparr>]\<rparr> \<and>
   get_user
     \<lparr>users = [\<lparr>u_id = ''u2'', email = ''useru2@example.com'', u_name = ''User u2'',
                totalPoints = Some 53, level = Some 2\<rparr>,
               \<lparr>u_id = ''u1'', email = ''useru1@example.com'', u_name = ''User u1'',
                totalPoints = Some 48, level = Some 1\<rparr>],
      achievements =
        [\<lparr>a_userId = Some ''u2'', achievementType = ''restaurant_recommendations'',
          pointsRequired = 50\<rparr>]\<rparr> ''u1'' =
     Some \<lparr>u_id = ''u1'', email = ''useru1@example.com'', u_name = ''User u1'',
           totalPoints = Some 48, level = Some 1\<rparr> \<and>
   (48::int) < 50 \<and> (50::int) \<le> 48 + 5 \<and>
   records_of
     \<lparr>users = [\<lparr>u_id = ''u2'', email = ''useru2@example.com'', u_name = ''User u2'',
                totalPoints = Some 53, level = Some 2\<rparr>,
               \<lparr>u_id = ''u1'', email = ''useru1@example.com'', u_name = ''User u1'',
                totalPoints = Some 48, level = Some 1\<rparr>],
      achievements =
        [\<lparr>a_userId = Some ''u2'', achievementType = ''restaurant_recommendations'',
          pointsRequired = 50\<rparr>]\<rparr> ''u1'' ''restaurant_recommendations'' = [] \<and>
   fst (awardPoints
     \<lparr>users = [\<lparr>u_id = ''u2'', email = ''useru2@example.com'', u_name = ''User u2'',
                totalPoints = Some 53, level = Some 2\<rparr>,
               \<lparr>u_id = ''u1'', email = ''useru1@example.com'', u_name = ''User u1'',
                totalPoints = Some 48, level = Some 1\<rparr>],
      achievements =
        [\<lparr>a_userId = Some ''u2'', achievementType = ''restaurant_recommendations'',
          pointsRequired = 50\<rparr>]\<rparr> ''u1'' 5 ''weather'') =
     Inr \<lparr>newTotal = 53, levelsGained = 1, unlockedRewards = []\<rparr> \<and>
   records_of (snd (awardPoints
     \<lparr>users = [\<lparr>u_id = ''u2'', email = ''useru2@example.com'', u_name = ''User u2'',
                totalPoints = Some 53, level = Some 2\<rparr>,
               \<lparr>u_id = ''u1'', email = ''useru1@example.com'', u_name = ''User u1'',
                totalPoints = Some 48, level = Some 1\<rparr>],
      achievements =
        [\<lparr>a_userId = Some ''u2'', achievementType = ''restaurant_recommendations'',
          pointsRequired = 50\<rparr>]\<rparr> ''u1'' 5 ''weather'')) ''u1'' ''restaurant_recommendations''
     = []"
proof -
  let ?u1 = "\<lparr>u_id = ''u1'', email = ''useru1@example.com'', u_name = ''User u1'',
              totalPoints = Some 48, level = Some 1\<rparr>"
  let ?a = "\<lparr>a_userId = Some ''u2'', achievementType = ''restaurant_recommendations'',
             pointsRequired = 50\<rparr>"
  let ?d = "\<lparr>users = [\<lparr>u_id = ''u2'', email = ''useru2@example.com'', u_name = ''User u2'',
                totalPoints = Some 53, level = Some 2\<rparr>, ?u1], achievements = [?a]\<rparr>"
  let ?r = "\<lparr>r_points = 50, r_type = ''restaurant_recommendations'',
             r_name = ''Restaurant Finder''\<rparr>"
  have reach: "snd (award_calls empty_db
          [(''u2'', 48, ''save''), (''u2'', 5, ''weather''), (''u1'', 48, ''save'')]) = ?d"
    by (simp add: ledger_defs)
  have h1: "get_user ?d ''u1'' = Some ?u1" by (simp add: get_user_find)
  have h2: "?r \<in> set rewardThresholds" by (simp add: rewardThresholds_def)
  have h3: "or_default (totalPoints ?u1) 0 < r_points ?r" by (simp add: or_default_def)
  have h4: "r_points ?r \<le> or_default (totalPoints ?u1) 0 + 5" by (simp add: or_default_def)
  have h5: "records_of ?d ''u1'' (r_type ?r) = []" by (simp add: records_of_def)
  have h6: "?a \<in> set (achievements ?d)" by simp
  have h7: "achievementType ?a = r_type ?r" by simp
  from crossing_without_own_record_not_recorded[OF h1 h2 h3 h4 h5 h6 h7, of "''weather''"]
    reach h1 h5
  show ?thesis by (simp add: ledger_defs)
qed

text \<open>
  C6. Let user \<open>u\<close> have a record, and let an Award call of \<open>u\<close> cross the threshold of the
  catalog entry \<open>r\<close> (stored total below the threshold, new total at or above it). If the
  table holds a record \<open>a\<close> of the type of \<open>r\<close>, whoever \<open>a\<close> belongs to, then the call
  succeeds, the name of \<open>r\<close> is not among the unlocked rewards it returns, and the records
  of \<open>u\<close> of that type are the same after the call as before: none is created.
\<close>

theorem existence_check_ignores_user:
  assumes "get_user d u = Some cu"
    and "r \<in> set rewardThresholds"
    and "or_default (totalPoints cu) 0 < r_points r"
    and "r_points r \<le> or_default (totalPoints cu) 0 + p"
    and "a \<in> set (achievements d)" and "achievementType a = r_type r"
  shows "(\<exists>res. fst (awardPoints d u p act) = Inr res \<and> r_name r \<notin> set (unlockedRewards res)) \<and>
         records_of (snd (awardPoints d u p act)) u (r_type r) = records_of d u (r_type r)"
proof -
  let ?old = "or_default (totalPoints cu) 0"
  let ?nu = "newly_unlocked d ?old (js_add ?old p) rewardThresholds"
  have n: "newly_unlocked (update_user u n l d) x y rs = newly_unlocked d x y rs" for n l x y rs
    by (simp add: newly_unlocked_def update_user_achievements)
  from assms(5,6) have "r_type r \<in> achievementType ` set (achievements d)" by (metis imageI)
  then have notin: "r \<notin> set ?nu" by (simp add: newly_unlocked_def)
  have sub: "set ?nu \<subseteq> set rewardThresholds" by (auto simp: newly_unlocked_def)
  have names: "r_name r \<notin> r_name ` set ?nu"
  proof
    assume "r_name r \<in> r_name ` set ?nu"
    then obtain x where x: "x \<in> set ?nu" "r_name x = r_name r" by auto
    with sub assms(2) rewardThresholds_names have "x = r" by (auto dest: inj_onD)
    with x notin show False by simp
  qed
  have types: "r_type r \<notin> r_type ` set ?nu"
  proof
    assume "r_type r \<in> r_type ` set ?nu"
    then obtain x where x: "x \<in> set ?nu" "r_type x = r_type r" by auto
    with sub assms(2) rewardThresholds_types have "x = r" by (auto dest: inj_onD)
    with x notin show False by simp
  qed
  from names assms(1)
  have 1: "\<exists>res. fst (awardPoints d u p act) = Inr res \<and> r_name r \<notin> set (unlockedRewards res)"
    by (simp add: awardPoints_existing(1) checkUnlockedRewards_char n)
  from types have "filter (\<lambda>a. a_userId a = Some u \<and> achievementType a = r_type r)
      (map (\<lambda>r. \<lparr>a_userId = Some u, achievementType = r_type r, pointsRequired = r_points r\<rparr>)
         ?nu) = []"
    by (auto simp: filter_empty_conv image_iff)
  with assms(1)
  have 2: "records_of (snd (awardPoints d u p act)) u (r_type r) = records_of d u (r_type r)"
    by (simp add: records_of_def awardPoints_achievements)
  from 1 2 show ?thesis by simp
qed

theorem existence_check_ignores_user_witness:
  "get_user \<lparr>users = [user_row ''u2'' 53 2, user_row ''u1'' 48 1],
             achievements = [\<lparr>a_userId = Some ''u2'',
                achievementType = ''restaurant_recommendations'', pointsRequired = 50\<rparr>]\<rparr> ''u1''
     = Some (user_row ''u1'' 48 1) \<and>
   fst (awardPoints \<lparr>users = [user_row ''u2'' 53 2, user_row ''u1'' 48 1],
             achievements = [\<lparr>a_userId = Some ''u2'',
                achievementType = ''restaurant_recommendations'', pointsRequired = 50\<rparr>]\<rparr>
          ''u1'' 5 ''weather'')
     = Inr \<lparr>newTotal = 53, levelsGained = 1, unlockedRewards = []\<rparr> \<and>
   records_of (snd (awardPoints \<lparr>users = [user_row ''u2'' 53 2, user_row ''u1'' 48 1],
             achievements = [\<lparr>a_userId = Some ''u2'',
                achievementType = ''restaurant_recommendations'', pointsRequired = 50\<rparr>]\<rparr>
          ''u1'' 5 ''weather''))
      ''u1'' ''restaurant_recommendations'' = []"
proof -
  let ?a = "\<lparr>a_userId = Some ''u2'', achievementType = ''restaurant_recommendations'',
             pointsRequired = 50\<rparr>"
  let ?d = "\<lparr>users = [user_row ''u2'' 53 2, user_row ''u1'' 48 1], achievements = [?a]\<rparr>"
  let ?r = "\<lparr>r_points = 50, r_type = ''restaurant_recommendations'',
             r_name = ''Restaurant Finder''\<rparr>"
  have h1: "get_user ?d ''u1'' = Some (user_row ''u1'' 48 1)"
    by (simp add: get_user_find user_row_def)
  have h2: "?r \<in> set rewardThresholds" by (simp add: rewardThresholds_def)
  have h3: "or_default (totalPoints (user_row ''u1'' 48 1)) 0 < r_points ?r"
    by (simp add: user_row_def or_default_def)
  have h4: "r_points ?r \<le> or_default (totalPoints (user_row ''u1'' 48 1)) 0 + 5"
    by (simp add: user_row_def or_default_def)
  have h5: "?a \<in> set (achievements ?d)" by simp
  have h6: "achievementType ?a = r_type ?r" by simp
  from existence_check_ignores_user[OF h1 h2 h3 h4 h5 h6, of "''weather''"] h1
  show ?thesis by (simp add: ledger_defs)
qed

subsection \<open>No validation of the input\<close>

text \<open>
  An Award call with the empty userId creates a user whose id is the empty string, and
  an Award call with -3 points on a user at 10 points stores 7: neither is rejected, and
  both write.
\<close>

theorem award_accepts_empty_user_and_negative_points:
  "awardPoints empty_db [] 5 ''weather'' =
     (Inr \<lparr>newTotal = 5, levelsGained = 0, unlockedRewards = []\<rparr>,
      \<lparr>users = [\<lparr>u_id = [], email = ''user@example.com'', u_name = ''User '',
                 totalPoints = Some 5, level = Some 1\<rparr>],
       achievements = []\<rparr>) \<and>
   awardPoints \<lparr>users = [user_row ''u1'' 10 1], achievements = []\<rparr> ''u1'' (- 3) ''weather'' =
     (Inr \<lparr>newTotal = 7, levelsGained = 0, unlockedRewards = []\<rparr>,
      \<lparr>users = [user_row ''u1'' 7 1], achievements = []\<rparr>)"
  by (simp add: ledger_defs)

text \<open>
  With a storage that rejects nothing, \<open>awardPoints_rejecting\<close> is \<open>awardPoints\<close>; and a
  call that succeeds, whatever the storage would have rejected, did what \<open>awardPoints\<close>
  does.
\<close>

lemma loop_rejecting_Inr:
  "checkRewards_loop_rejecting rejects rs u oldT newT acc d = (Inr x, d') \<Longrightarrow>
   checkRewards_loop rs u oldT newT acc d = (x, d')"
  by (induction rs arbitrary: acc d) (auto split: if_splits option.splits)

lemma loop_rejecting_none:
  "\<forall>s. \<not> rejects s \<Longrightarrow>
   checkRewards_loop_rejecting rejects rs u oldT newT acc d =
     (Inr (fst (checkRewards_loop rs u oldT newT acc d)),
      snd (checkRewards_loop rs u oldT newT acc d))"
  by (induction rs arbitrary: acc d) (auto split: option.splits)

lemma awardPoints_rejecting_none:
  assumes "\<forall>s. \<not> rejects s"
  shows "awardPoints_rejecting rejects d u p a = awardPoints d u p a"
  using assms
  by (simp add: awardPoints_rejecting_def awardPoints_def checkUnlockedRewards_def
        loop_rejecting_none Let_def split: option.splits sum.splits prod.splits)

lemma successful_call_is_awardPoints:
  assumes "succeeded (fst (awardPoints_rejecting rejects d u p a))"
  shows "awardPoints_rejecting rejects d u p a = awardPoints d u p a"
  using assms
  by (auto simp: awardPoints_rejecting_def awardPoints_def checkUnlockedRewards_def
        succeeded_def Let_def dest: loop_rejecting_Inr
        split: option.splits sum.splits prod.splits if_splits)

text \<open>
  A call that fails can have written: here the storage rejects the existence check for
  the first reward, after the update of the user row; the call throws and the new total
  53 is stored.
\<close>

lemma rejected_check_leaves_total_written:
  "awardPoints_rejecting (\<lambda>s. s = Select_achievement ''restaurant_recommendations'')
     \<lparr>users = [user_row ''u1'' 48 1], achievements = []\<rparr> ''u1'' 5 ''weather'' =
   (Inl (FailedToAwardPoints StatementRejected),
    \<lparr>users = [user_row ''u1'' 53 2], achievements = []\<rparr>)"
  by (simp add: awardPoints_rejecting_def ledger_defs)

text \<open>
  C7, as the code has it. Award does not validate its input and has no error for an
  invalid one. On a user that has a record, a call none of whose statements the storage
  rejects succeeds for every value of \<open>points\<close> (zero and negative ones too) and every
  userId (the empty one too), and stores the old total plus the points, the old total,
  the points and their sum being at most \<open>2^53\<close> in absolute value. Nothing is said of
  what a failing call leaves written.
\<close>

theorem award_does_not_validate:
  assumes "\<forall>s. \<not> rejects s"
    and "get_user d userId = Some cu"
    and "js_safe (or_default (totalPoints cu) 0)" and "js_safe points"
    and "js_safe (or_default (totalPoints cu) 0 + points)"
  shows "succeeded (fst (awardPoints_rejecting rejects d userId points action)) \<and>
         stored_points (snd (awardPoints_rejecting rejects d userId points action)) userId =
           or_default (totalPoints cu) 0 + points"
proof -
  have e: "awardPoints_rejecting rejects d userId points action = awardPoints d userId points action"
    by (rule awardPoints_rejecting_none[OF assms(1)])
  from assms(2) have s: "succeeded (fst (awardPoints d userId points action))"
    by (simp add: awardPoints_existing(1) succeeded_def)
  from assms(2,5) have "js_safe (stored_points d userId + points)" by (simp add: stored_points_alt)
  from awardPoints_stored_points[OF s this] assms(2) s show ?thesis
    unfolding e by (simp add: stored_points_alt)
qed

theorem award_does_not_validate_witness:
  "(\<forall>s. \<not> (\<lambda>s. False) s) \<and>
   get_user \<lparr>users = [user_row [] 10 1], achievements = []\<rparr> [] = Some (user_row [] 10 1) \<and>
   js_safe (or_default (totalPoints (user_row [] 10 1)) 0) \<and> js_safe (- 3) \<and>
   js_safe (or_default (totalPoints (user_row [] 10 1)) 0 + (- 3)) \<and>
   succeeded
     (fst (awardPoints_rejecting (\<lambda>s. False)
        \<lparr>users = [user_row [] 10 1], achievements = []\<rparr> [] (- 3) ''weather'')) \<and>
   stored_points
     (snd (awardPoints_rejecting (\<lambda>s. False)
        \<lparr>users = [user_row [] 10 1], achievements = []\<rparr> [] (- 3) ''weather'')) [] = 7"
proof -
  let ?d = "\<lparr>users = [user_row [] 10 1], achievements = []\<rparr>"
  have h0: "\<forall>s::statement. \<not> (\<lambda>s. False) s" by simp
  have h1: "get_user ?d [] = Some (user_row [] 10 1)"
    by (simp add: get_user_find user_row_def)
  have h2: "js_safe (or_default (totalPoints (user_row [] 10 1)) 0)"
    by (simp add: user_row_def or_default_def js_safe_def)
  have h3: "js_safe (- 3)" by (simp add: js_safe_def)
  have h4: "js_safe (or_default (totalPoints (user_row [] 10 1)) 0 + (- 3))"
    by (simp add: user_row_def or_default_def js_safe_def)
  from award_does_not_validate[OF h0 h1 h2 h3 h4, of "''weather''"] h1 h2 h3 h4
  show ?thesis by (simp add: user_row_def or_default_def)
qed

subsection \<open>The gate of unlock\_reward\<close>

text \<open>
  The handler refuses the userId \<open>anonymous\<close> before it looks at any points: the answer is
  the error of the \<^verbatim>\<open>catch\<close> block, with no required, current or missing points, although
  the user has 0 points and the reward needs 300.
\<close>

theorem unlock_reward_anonymous_user:
  "unlock_reward empty_db ''anonymous'' ''photography_spots'' =
     (UnlockFailed ''User ID is required to unlock rewards'' ''anonymous'', empty_db) \<and>
   map_of rewardRequirements ''photography_spots'' = Some 300 \<and>
   stored_points empty_db ''anonymous'' = 0"
  by (simp add: unlock_reward_def rewardRequirements_def ledger_defs)

text \<open>
  C8, as the code has it. For a userId that is neither empty nor \<open>anonymous\<close> and a reward
  type of the catalog with threshold \<open>threshold\<close>: when the user's current points are below
  the threshold the answer is the insufficient-points failure with required = threshold,
  current = the points and deficit = threshold - points; otherwise it is the static content
  of that reward type. In both cases the database is returned as it was given.
\<close>

theorem unlock_reward_gate:
  assumes "userId \<noteq> []" and "userId \<noteq> ''anonymous''"
    and "map_of rewardRequirements rewardType = Some threshold"
  shows "unlock_reward d userId rewardType =
     (if stored_points d userId < threshold
      then InsufficientPoints threshold (stored_points d userId)
             (threshold - stored_points d userId)
      else Unlocked userId rewardType (generateRewardContent rewardType), d)"
  using assms
  by (simp add: unlock_reward_def stored_points_def case_prod_beta getUserProgress_db)

theorem unlock_reward_gate_witness:
  "''u1'' \<noteq> [] \<and> ''u1'' \<noteq> ''anonymous'' \<and>
   map_of rewardRequirements ''photography_spots'' = Some 300 \<and>
   unlock_reward \<lparr>users = [user_row ''u1'' 290 6], achievements = []\<rparr>
       ''u1'' ''photography_spots''
    = (InsufficientPoints 300 290 10, \<lparr>users = [user_row ''u1'' 290 6], achievements = []\<rparr>)"
proof -
  have h1: "''u1'' \<noteq> []" and h2: "''u1'' \<noteq> ''anonymous''" by simp_all
  have h3: "map_of rewardRequirements ''photography_spots'' = Some 300"
    by (simp add: rewardRequirements_def)
  from unlock_reward_gate[OF h1 h2 h3,
         of "\<lparr>users = [user_row ''u1'' 290 6], achievements = []\<rparr>"] h3
  show ?thesis by (simp add: ledger_defs Let_def)
qed

subsection \<open>The next reward\<close>

lemma getUserProgress_nextReward:
  "nextReward (fst (getUserProgress d u)) = getNextReward (stored_points d u)"
  by (simp add: stored_points_def getUserProgress_def Let_def getNextReward_def
        split: option.splits)

text \<open>
  For a user at 300 points the name of the next reward ends in an exclamation mark: it
  is not the string \<open>All rewards unlocked\<close>.
\<close>

theorem all_unlocked_name_has_exclamation_mark:
  "nextReward (fst (getUserProgress \<lparr>users = [user_row ''u1'' 300 7], achievements = []\<rparr> ''u1''))
     = \<lparr>nr_name = ''All rewards unlocked!'', pointsNeeded = 0\<rparr> \<and>
   nextReward (fst (getUserProgress \<lparr>users = [user_row ''u1'' 300 7], achievements = []\<rparr> ''u1''))
     \<noteq> \<lparr>nr_name = ''All rewards unlocked'', pointsNeeded = 0\<rparr>"
  by (simp add: ledger_defs Let_def)

text \<open>
  C9, as the code has it. Let \<open>p\<close> be the user's current points. If \<open>r\<close> is a catalog
  entry whose threshold exceeds \<open>p\<close> and is the lowest such threshold, the next reward
  GetProgress returns has the display name of \<open>r\<close> and \<open>pointsNeeded = threshold - p\<close>. If
  every threshold of the catalog is at most \<open>p\<close>, the next reward is
  \<open>{name: "All rewards unlocked!", pointsNeeded: 0}\<close>, the name with the exclamation mark.
\<close>

theorem nextReward_lowest_threshold_above:
  "(r \<in> set rewardThresholds \<and> stored_points d u < r_points r \<and>
      (\<forall>r' \<in> set rewardThresholds. stored_points d u < r_points r' \<longrightarrow> r_points r \<le> r_points r')
     \<longrightarrow> nextReward (fst (getUserProgress d u)) =
           \<lparr>nr_name = r_name r, pointsNeeded = r_points r - stored_points d u\<rparr>) \<and>
   ((\<forall>r' \<in> set rewardThresholds. r_points r' \<le> stored_points d u)
     \<longrightarrow> nextReward (fst (getUserProgress d u)) =
           \<lparr>nr_name = ''All rewards unlocked!'', pointsNeeded = 0\<rparr>)"
  unfolding getUserProgress_nextReward
  by (auto simp: getNextReward_def rewardThresholds_def)

theorem nextReward_lowest_threshold_above_witness:
  "stored_points \<lparr>users = [user_row ''u1'' 120 3], achievements = []\<rparr> ''u1'' = 120 \<and>
   nextReward (fst (getUserProgress \<lparr>users = [user_row ''u1'' 120 3], achievements = []\<rparr> ''u1''))
     = \<lparr>nr_name = ''Local Food Specialties'', pointsNeeded = 80\<rparr> \<and>
   stored_points \<lparr>users = [user_row ''u1'' 300 7], achievements = []\<rparr> ''u1'' = 300 \<and>
   nextReward (fst (getUserProgress \<lparr>users = [user_row ''u1'' 300 7], achievements = []\<rparr> ''u1''))
     = \<lparr>nr_name = ''All rewards unlocked!'', pointsNeeded = 0\<rparr>"
proof -
  let ?d1 = "\<lparr>users = [user_row ''u1'' 120 3], achievements = []\<rparr>"
  let ?d2 = "\<lparr>users = [user_row ''u1'' 300 7], achievements = []\<rparr>"
  let ?r = "\<lparr>r_points = 200, r_type = ''food_specialties'', r_name = ''Local Food Specialties''\<rparr>"
  have s1: "stored_points ?d1 ''u1'' = 120"
    by (simp add: stored_points_alt get_user_find user_row_def or_default_def)
  have s2: "stored_points ?d2 ''u1'' = 300"
    by (simp add: stored_points_alt get_user_find user_row_def or_default_def)
  have a1: "?r \<in> set rewardThresholds \<and> stored_points ?d1 ''u1'' < r_points ?r \<and>
      (\<forall>r' \<in> set rewardThresholds.
          stored_points ?d1 ''u1'' < r_points r' \<longrightarrow> r_points ?r \<le> r_points r')"
    unfolding s1 by (simp add: rewardThresholds_def)
  have a2: "\<forall>r' \<in> set rewardThresholds. r_points r' \<le> stored_points ?d2 ''u1''"
    unfolding s2 by (simp add: rewardThresholds_def)
  from nextReward_lowest_threshold_above[of ?r ?d1 "''u1''"] a1
  have b1: "nextReward (fst (getUserProgress ?d1 ''u1'')) =
      \<lparr>nr_name = ''Local Food Specialties'', pointsNeeded = 80\<rparr>" by (simp add: s1)
  from nextReward_lowest_threshold_above[of _ ?d2 "''u1''"] a2
  have b2: "nextReward (fst (getUserProgress ?d2 ''u1'')) =
      \<lparr>nr_name = ''All rewards unlocked!'', pointsNeeded = 0\<rparr>" by simp
  from s1 b1 s2 b2 show ?thesis by simp
qed

subsection \<open>GetProgress on a user that has no record\<close>

text \<open>
  C10. For a userId with no row in \<^verbatim>\<open>users\<close>, \<^verbatim>\<open>getUserProgress\<close> returns 0 points,
  level 1, no achievements and the next reward "Restaurant Finder" at 50 points needed, and
  the database it leaves is the database it was given: no user row is created, and neither
  table is written.
\<close>

theorem getUserProgress_unseen_user:
  "get_user d userId = None \<Longrightarrow>
   getUserProgress d userId =
     (\<lparr>p_points = 0, p_level = 1, p_achievements = [],
       nextReward = \<lparr>nr_name = ''Restaurant Finder'', pointsNeeded = 50\<rparr>\<rparr>, d)"
  by (simp add: getUserProgress_def)

theorem getUserProgress_unseen_user_witness:
  "get_user \<lparr>users = [], achievements = []\<rparr> ''u1'' = None \<and>
   getUserProgress \<lparr>users = [], achievements = []\<rparr> ''u1'' =
     (\<lparr>p_points = 0, p_level = 1, p_achievements = [],
       nextReward = \<lparr>nr_name = ''Restaurant Finder'', pointsNeeded = 50\<rparr>\<rparr>,
      \<lparr>users = [], achievements = []\<rparr>)"
proof -
  have h: "get_user \<lparr>users = [], achievements = []\<rparr> ''u1'' = None"
    by (simp add: get_user_find)
  from getUserProgress_unseen_user[OF h] h show ?thesis by simp
qed

end
